theory Spec2Isabelle
  imports Complex_Main
begin

section \<open>The equation service of \<^verbatim>\<open>backend/app.py\<close>\<close>

text \<open>
  The module parses an equation text, hands it to the computer-algebra library, and
  renders the library's answer. Parsing of a side, subtraction, simplification, solving,
  printing and conversion to a float are calls into the library; the module itself
  decides how the text is split, which path is taken, how the outcome is rendered, and
  how exceptions become responses. The library is therefore a parameter of the model: a
  record of the operations the module calls, over the library's type of expressions.
\<close>

subsection \<open>Exceptions and floats\<close>

text \<open>
  The exception classes that the module names, and those that reach it from the calls
  it makes. \<open>SympifyError\<close>, \<open>ValueError\<close> and \<open>TypeError\<close> are the ones the
  request handler lists; \<open>ValueError\<close> and \<open>TypeError\<close> are the ones the formatter lists.
\<close>

datatype exn =
  SympifyError | ValueError | TypeError | SyntaxError | OverflowError
  | NotImplementedError | ZeroDivisionError | AttributeError

text \<open>A Python float: a finite value (kept as the rational it denotes), an infinity or a NaN.\<close>

datatype pyfloat = Finite rat | PosInf | NegInf | NaN

text \<open>\<^verbatim>\<open>int(f)\<close>: truncation towards zero; an infinity or a NaN raises.\<close>

definition trunc_rat :: "rat \<Rightarrow> int" where
  "trunc_rat q = (if 0 \<le> q then \<lfloor>q\<rfloor> else \<lceil>q\<rceil>)"

fun py_int :: "pyfloat \<Rightarrow> exn + int" where
  "py_int (Finite q) = Inr (trunc_rat q)"
| "py_int PosInf = Inl OverflowError"
| "py_int NegInf = Inl OverflowError"
| "py_int NaN = Inl ValueError"

text \<open>\<^verbatim>\<open>f == i\<close> for a float and an int: exact comparison of the values.\<close>

fun float_eq_int :: "pyfloat \<Rightarrow> int \<Rightarrow> bool" where
  "float_eq_int (Finite q) i = (q = of_int i)"
| "float_eq_int _ i = False"

subsection \<open>Strings\<close>

text \<open>\<^verbatim>\<open>str(n)\<close> for an int: decimal digits, a minus sign before a negative number.\<close>

definition digit_char :: "nat \<Rightarrow> char" where
  "digit_char d = ''0123456789'' ! d"

fun str_nat :: "nat \<Rightarrow> string" where
  "str_nat n = (if n < 10 then [digit_char n] else str_nat (n div 10) @ [digit_char (n mod 10)])"

definition str_int :: "int \<Rightarrow> string" where
  "str_int i = (if i < 0 then CHR ''-'' # str_nat (nat (- i)) else str_nat (nat i))"

text \<open>\<^verbatim>\<open>s.replace("^", "**")\<close> and \<^verbatim>\<open>s.replace("I", "i")\<close>.\<close>

definition replace_caret :: "string \<Rightarrow> string" where
  "replace_caret s = concat (map (\<lambda>c. if c = CHR ''^'' then ''**'' else [c]) s)"

definition replace_I :: "string \<Rightarrow> string" where
  "replace_I s = map (\<lambda>c. if c = CHR ''I'' then CHR ''i'' else c) s"

text \<open>
  \<^verbatim>\<open>s.strip()\<close>: the ASCII characters that Python counts as whitespace are the
  codes 9 to 13 and 28 to 32.
\<close>

definition is_space :: "char \<Rightarrow> bool" where
  "is_space c = (let n = (of_char c :: nat) in (9 \<le> n \<and> n \<le> 13) \<or> (28 \<le> n \<and> n \<le> 32))"

definition strip :: "string \<Rightarrow> string" where
  "strip s = rev (dropWhile is_space (rev (dropWhile is_space s)))"

text \<open>
  \<^verbatim>\<open>s.split("=", 1)\<close> on a text that contains \<open>=\<close>: the part before the first
  \<open>=\<close> and everything after it, further \<open>=\<close> characters included.
\<close>

definition split_eq :: "string \<Rightarrow> string \<times> string" where
  "split_eq s = (takeWhile (\<lambda>c. c \<noteq> CHR ''='') s, tl (dropWhile (\<lambda>c. c \<noteq> CHR ''='') s))"

text \<open>\<^verbatim>\<open>sep.join(parts)\<close>.\<close>

fun join :: "string \<Rightarrow> string list \<Rightarrow> string" where
  "join sep [] = []"
| "join sep [p] = p"
| "join sep (p # q # ps) = p @ sep @ join sep (q # ps)"

subsection \<open>The library as a parameter\<close>

text \<open>
  The operations of the library that the module calls, over the library's expressions
  \<open>'e\<close>. Each call that can raise returns a sum, \<open>Inl\<close> the exception.
  \<^item> \<open>parse_expr\<close>: \<^verbatim>\<open>parse_expr(s, transformations=standard_transformations +
    (implicit_multiplication_application,))\<close>;
  \<^item> \<open>sub\<close>: \<^verbatim>\<open>left_expr - right_expr\<close>;
  \<^item> \<open>free_symbols\<close>: the names of \<^verbatim>\<open>e.free_symbols\<close>;
  \<^item> \<open>simplify\<close>: \<^verbatim>\<open>e.simplify()\<close>;
  \<^item> \<open>sympy_solve\<close>: \<^verbatim>\<open>sympy_solve(e, x)\<close> for the symbol named by the second argument;
  \<^item> \<open>eq_zero\<close>: \<^verbatim>\<open>e == 0\<close>;
  \<^item> \<open>str\<close>: \<^verbatim>\<open>str(e)\<close>;
  \<^item> \<open>float_of\<close>: \<^verbatim>\<open>float(e)\<close>.
\<close>

record 'e sympy =
  parse_expr :: "string \<Rightarrow> exn + 'e"
  sub :: "'e \<Rightarrow> 'e \<Rightarrow> exn + 'e"
  free_symbols :: "'e \<Rightarrow> string set"
  simplify :: "'e \<Rightarrow> exn + 'e"
  sympy_solve :: "'e \<Rightarrow> string \<Rightarrow> exn + 'e list"
  eq_zero :: "'e \<Rightarrow> bool"
  str :: "'e \<Rightarrow> string"
  float_of :: "'e \<Rightarrow> exn + pyfloat"

subsection \<open>\<^verbatim>\<open>parse_equation\<close>\<close>

definition parse_equation :: "'e sympy \<Rightarrow> string \<Rightarrow> exn + 'e" where
  "parse_equation L equation_str =
     (let s = replace_caret equation_str in
      if CHR ''='' \<in> set s then
        (case split_eq s of (left, right) \<Rightarrow>
          (case parse_expr L (strip left) of
             Inl e \<Rightarrow> Inl e
           | Inr left_expr \<Rightarrow>
               (case parse_expr L (strip right) of
                  Inl e \<Rightarrow> Inl e
                | Inr right_expr \<Rightarrow> sub L left_expr right_expr)))
      else parse_expr L s)"

subsection \<open>\<^verbatim>\<open>solve_equation\<close>\<close>

text \<open>
  The elements of the list that \<^verbatim>\<open>solve_equation\<close> returns: the string
  \<^verbatim>\<open>"EVAL"\<close>, the set \<^verbatim>\<open>S.Reals\<close>, or an expression of the library.
\<close>

datatype 'e item = EVAL | S_Reals | Expr 'e

definition solve_equation :: "'e sympy \<Rightarrow> string \<Rightarrow> string \<Rightarrow> exn + 'e item list" where
  "solve_equation L equation_str variable =
     (case parse_equation L equation_str of
        Inl e \<Rightarrow> Inl e
      | Inr equation \<Rightarrow>
          if variable \<notin> free_symbols L equation then
            (case simplify L equation of
               Inl e \<Rightarrow> Inl e
             | Inr result \<Rightarrow> Inr [EVAL, Expr result])
          else
            (case sympy_solve L equation variable of
               Inl e \<Rightarrow> Inl e
             | Inr solutions \<Rightarrow>
                 if solutions = [] then
                   (case simplify L equation of
                      Inl e \<Rightarrow> Inl e
                    | Inr simplified \<Rightarrow>
                        if eq_zero L simplified then Inr [S_Reals]
                        else Inr (map Expr solutions))
                 else Inr (map Expr solutions)))"

subsection \<open>\<^verbatim>\<open>format_solutions\<close>\<close>

text \<open>
  \<^verbatim>\<open>float(v)\<close> and \<^verbatim>\<open>str(v)\<close> for an element of the list: the string
  \<^verbatim>\<open>"EVAL"\<close> is no float literal (\<open>ValueError\<close>), a set has no float conversion
  (\<open>TypeError\<close>), an expression is converted and printed by the library.
\<close>

fun item_float :: "'e sympy \<Rightarrow> 'e item \<Rightarrow> exn + pyfloat" where
  "item_float L EVAL = Inl ValueError"
| "item_float L S_Reals = Inl TypeError"
| "item_float L (Expr e) = float_of L e"

fun item_str :: "'e sympy \<Rightarrow> 'e item \<Rightarrow> string" where
  "item_str L EVAL = ''EVAL''"
| "item_str L S_Reals = ''Reals''"
| "item_str L (Expr e) = str L e"

text \<open>
  The body of the \<^verbatim>\<open>try\<close>: \<open>Inr (Some s)\<close> when it returns \<open>s\<close>,
  \<open>Inr None\<close> when the comparison is false, \<open>Inl\<close> the exception it raises.
\<close>

definition try_integer :: "'e sympy \<Rightarrow> 'e item \<Rightarrow> exn + string option" where
  "try_integer L result =
     (case item_float L result of
        Inl e \<Rightarrow> Inl e
      | Inr f \<Rightarrow>
          (case py_int f of
             Inl e \<Rightarrow> Inl e
           | Inr i \<Rightarrow> if float_eq_int f i then Inr (Some (str_int i)) else Inr None))"

text \<open>
  The scalar branch: \<^verbatim>\<open>except (ValueError, TypeError): pass\<close> falls through to
  the printed expression; any other exception leaves the function.
\<close>

definition format_eval :: "'e sympy \<Rightarrow> 'e item \<Rightarrow> exn + string" where
  "format_eval L result =
     (case try_integer L result of
        Inr (Some s) \<Rightarrow> Inr s
      | Inr None \<Rightarrow> Inr (replace_I (item_str L result))
      | Inl e \<Rightarrow>
          if e = ValueError \<or> e = TypeError then Inr (replace_I (item_str L result))
          else Inl e)"

text \<open>
  An expression is equal neither to the string \<^verbatim>\<open>"EVAL"\<close> nor to the set
  \<^verbatim>\<open>S.Reals\<close>, so both tests are tests on the constructor. The second disjunct
  of the third test, \<^verbatim>\<open>solutions == S.Reals\<close>, compares a list with a set and is
  false for every list.
\<close>

definition format_solutions :: "'e sympy \<Rightarrow> 'e item list \<Rightarrow> exn + string" where
  "format_solutions L solutions =
     (if solutions = [] then Inr ''No solution exists''
      else if length solutions = 2 \<and> hd solutions = EVAL then format_eval L (solutions ! 1)
      else if S_Reals \<in> set solutions then Inr ''x can be any real number''
      else
        (let formatted = map (\<lambda>sol. ''x = '' @ replace_I (item_str L sol)) solutions in
         if length formatted = 1 then Inr (hd formatted)
         else Inr (join '' or '' formatted)))"

subsection \<open>The request handler\<close>

text \<open>A response: the status code, the key of the JSON body and its text.\<close>

datatype response = Response nat string string

text \<open>The two \<^verbatim>\<open>except\<close> clauses of the handler.\<close>

definition handle_exn :: "exn \<Rightarrow> response" where
  "handle_exn e =
     (if e = SympifyError \<or> e = ValueError \<or> e = TypeError
      then Response 400 ''error'' ''Invalid equation syntax. Please check your input.''
      else Response 500 ''error'' ''Failed to solve equation. Please try a simpler form.'')"

text \<open>
  \<^verbatim>\<open>solve_equation\<close> followed by \<^verbatim>\<open>format_solutions\<close>, as the handler
  composes them, for any variable.
\<close>

definition solve_text :: "'e sympy \<Rightarrow> string \<Rightarrow> string \<Rightarrow> exn + string" where
  "solve_text L equation variable =
     (case solve_equation L equation variable of
        Inl e \<Rightarrow> Inl e
      | Inr solutions \<Rightarrow> format_solutions L solutions)"

text \<open>The route \<^verbatim>\<open>/solve\<close>; the argument is the query parameter, if present.\<close>

definition solve :: "'e sympy \<Rightarrow> string option \<Rightarrow> response" where
  "solve L arg =
     (let equation = strip (case arg of None \<Rightarrow> [] | Some s \<Rightarrow> s) in
      if equation = [] then Response 400 ''error'' ''Missing 'equation' query parameter''
      else if length equation > 500
      then Response 400 ''error'' ''Equation too long (max 500 characters)''
      else
        (case solve_text L equation ''x'' of
           Inl e \<Rightarrow> handle_exn e
         | Inr result_text \<Rightarrow> Response 200 ''result'' result_text))"

subsection \<open>The library's answers on the examples\<close>

text \<open>
  The library is not among the sources of the repository. For statements about concrete
  inputs, the record \<open>sympy_ref\<close> below gives the library's expressions as trees and
  lists its answers on the expressions that the examples meet:
  \<^item> an integer literal parses to that integer; the other texts that parse are listed
    in \<open>ref_parsed\<close>, and a side that still contains an \<open>=\<close> is a syntax error of
    the evaluated code;
  \<^item> a difference of integers is an integer, \<open>e - 0\<close> is \<open>e\<close>, an integer
    subtracted from a sum joins its numeric term, \<open>oo\<close> minus an integer is \<open>oo\<close>;
  \<^item> the free symbols are those of the tree; \<open>== 0\<close> is structural;
  \<^item> the solver lists the roots of \<open>x**2 - 4\<close> as \<open>[-2, 2]\<close> and of
    \<open>x**2 + 1\<close> as \<open>[-I, I]\<close>, finds none for \<open>1/x\<close> nor for an expression
    that is identically zero, and solves \<open>s + c\<close> for \<open>s\<close>;
  \<^item> the float of an integer is the nearest double (ties to even), of \<open>oo\<close> the
    infinity; an expression with a symbol or an imaginary part has none (\<open>TypeError\<close>).
  Outside these cases the entries fall back to a syntax error (parsing), an unevaluated
  difference, the unchanged expression (simplification), \<open>NotImplementedError\<close>
  (solving) and a constructor form (printing); no statement below depends on a fallback.
\<close>

datatype expr =
  Integer int | Symbol string | ImaginaryUnit | Infinity
  | Add "expr list" | Mul "expr list" | Pow expr expr

definition is_digit :: "char \<Rightarrow> bool" where
  "is_digit c = (let n = (of_char c :: nat) in 48 \<le> n \<and> n \<le> 57)"

definition int_of_digits :: "string \<Rightarrow> int" where
  "int_of_digits s = foldl (\<lambda>n c. 10 * n + (int (of_char c) - 48)) 0 s"

definition is_int_literal :: "string \<Rightarrow> bool" where
  "is_int_literal s = (s \<noteq> [] \<and> list_all is_digit s \<and> (s = ''0'' \<or> hd s \<noteq> CHR ''0''))"

definition x_sq :: expr where
  "x_sq = Pow (Symbol ''x'') (Integer 2)"

definition square_of_sum :: expr where
  "square_of_sum = Pow (Add [Integer 1, Symbol ''x'']) (Integer 2)"

definition expanded_square :: expr where
  "expanded_square = Add [Integer 1, x_sq, Mul [Integer 2, Symbol ''x'']]"

definition ref_parsed :: "(string \<times> expr) list" where
  "ref_parsed =
     [(''x'', Symbol ''x''),
      (''y'', Symbol ''y''),
      (''oo'', Infinity),
      (''x - x'', Integer 0),
      (''x**2 - 4'', Add [Integer (- 4), x_sq]),
      (''x**2 + 1'', Add [Integer 1, x_sq]),
      (''y + 1'', Add [Integer 1, Symbol ''y'']),
      (''1/x'', Pow (Symbol ''x'') (Integer (- 1))),
      (''(x + 1)**2'', square_of_sum),
      (''x**2 + 2*x + 1'', expanded_square)]"

definition ref_parse_expr :: "string \<Rightarrow> exn + expr" where
  "ref_parse_expr s =
     (if is_int_literal s then Inr (Integer (int_of_digits s))
      else (case map_of ref_parsed s of Some e \<Rightarrow> Inr e | None \<Rightarrow> Inl SyntaxError))"

fun ref_sub :: "expr \<Rightarrow> expr \<Rightarrow> exn + expr" where
  "ref_sub (Integer m) (Integer n) = Inr (Integer (m - n))"
| "ref_sub Infinity (Integer n) = Inr Infinity"
| "ref_sub (Add (Integer c # ts)) (Integer n) =
     Inr (if c - n \<noteq> 0 then Add (Integer (c - n) # ts)
          else (case ts of [t] \<Rightarrow> t | _ \<Rightarrow> Add ts))"
| "ref_sub a (Integer n) = Inr (if n = 0 then a else Add [Integer (- n), a])"
| "ref_sub a b = Inr (Add [a, Mul [Integer (- 1), b]])"

fun ref_free_symbols :: "expr \<Rightarrow> string set" where
  "ref_free_symbols (Symbol s) = {s}"
| "ref_free_symbols (Add ts) = (\<Union>t \<in> set ts. ref_free_symbols t)"
| "ref_free_symbols (Mul ts) = (\<Union>t \<in> set ts. ref_free_symbols t)"
| "ref_free_symbols (Pow a b) = ref_free_symbols a \<union> ref_free_symbols b"
| "ref_free_symbols _ = {}"

definition zero_difference :: expr where
  "zero_difference = Add [square_of_sum, Mul [Integer (- 1), expanded_square]]"

definition ref_simplify :: "expr \<Rightarrow> exn + expr" where
  "ref_simplify e = (if e = zero_difference then Inr (Integer 0) else Inr e)"

definition minus_I :: expr where
  "minus_I = Mul [Integer (- 1), ImaginaryUnit]"

definition ref_solve :: "expr \<Rightarrow> string \<Rightarrow> exn + expr list" where
  "ref_solve e v =
     (if v \<notin> ref_free_symbols e then Inr []
      else if e = Symbol v then Inr [Integer 0]
      else if e = Add [Integer (- 4), x_sq] then Inr [Integer (- 2), Integer 2]
      else if e = Add [Integer 1, x_sq] then Inr [minus_I, ImaginaryUnit]
      else if e = Pow (Symbol ''x'') (Integer (- 1)) then Inr []
      else if e = zero_difference then Inr []
      else (case e of
              Add [Integer c, Symbol s] \<Rightarrow> Inr [Integer (- c)]
            | _ \<Rightarrow> Inl NotImplementedError))"

fun ref_str :: "expr \<Rightarrow> string" where
  "ref_str (Integer n) = str_int n"
| "ref_str (Symbol s) = s"
| "ref_str ImaginaryUnit = ''I''"
| "ref_str Infinity = ''oo''"
| "ref_str (Mul [Integer n, ImaginaryUnit]) =
     (if n = - 1 then ''-I'' else str_int n @ ''*I'')"
| "ref_str (Add [Integer c, Symbol s]) =
     (if c < 0 then s @ '' - '' @ str_int (- c) else s @ '' + '' @ str_int c)"
| "ref_str (Add ts) = ''Add('' @ join '', '' (map ref_str ts) @ '')''"
| "ref_str (Mul ts) = ''Mul('' @ join '', '' (map ref_str ts) @ '')''"
| "ref_str (Pow a b) = ''Pow('' @ ref_str a @ '', '' @ ref_str b @ '')''"

text \<open>The nearest double of an integer: 53 significant bits, ties to the even mantissa.\<close>

fun bit_length :: "nat \<Rightarrow> nat" where
  "bit_length n = (if n = 0 then 0 else Suc (bit_length (n div 2)))"

definition round53 :: "nat \<Rightarrow> nat" where
  "round53 n =
     (let k = bit_length n - 53; q = n div 2 ^ k; r = n mod 2 ^ k in
      if k = 0 then n
      else if 2 * r > 2 ^ k \<or> (2 * r = 2 ^ k \<and> odd q) then (q + 1) * 2 ^ k
      else q * 2 ^ k)"

definition float_of_int :: "int \<Rightarrow> pyfloat" where
  "float_of_int i =
     (let m = round53 (nat \<bar>i\<bar>) in
      if m \<ge> 2 ^ 1024 then (if i < 0 then NegInf else PosInf)
      else Finite (of_int (if i < 0 then - int m else int m)))"

fun ref_float_of :: "expr \<Rightarrow> exn + pyfloat" where
  "ref_float_of (Integer n) = Inr (float_of_int n)"
| "ref_float_of Infinity = Inr PosInf"
| "ref_float_of _ = Inl TypeError"

definition sympy_ref :: "expr sympy" where
  "sympy_ref =
     \<lparr> parse_expr = ref_parse_expr, sub = ref_sub, free_symbols = ref_free_symbols,
       simplify = ref_simplify, sympy_solve = ref_solve, eq_zero = (\<lambda>e. e = Integer 0),
       str = ref_str, float_of = ref_float_of \<rparr>"

section \<open>Properties\<close>

lemmas model_defs =
  solve_def solve_text_def solve_equation_def parse_equation_def format_solutions_def
  format_eval_def try_integer_def handle_exn_def replace_caret_def replace_I_def strip_def
  is_space_def split_eq_def str_int_def digit_char_def trunc_rat_def

lemmas ref_defs =
  sympy_ref_def ref_parse_expr_def ref_parsed_def is_int_literal_def is_digit_def
  int_of_digits_def ref_simplify_def ref_solve_def zero_difference_def square_of_sum_def
  expanded_square_def x_sq_def minus_I_def float_of_int_def round53_def Let_def

subsection \<open>The three outcomes of \<^verbatim>\<open>solve_equation\<close>\<close>

lemma solve_equation_eval:
  "parse_equation L s = Inr eq \<Longrightarrow> v \<notin> free_symbols L eq \<Longrightarrow> simplify L eq = Inr r
   \<Longrightarrow> solve_equation L s v = Inr [EVAL, Expr r]"
  by (simp add: solve_equation_def)

lemma solve_equation_no_roots:
  "parse_equation L s = Inr eq \<Longrightarrow> v \<in> free_symbols L eq \<Longrightarrow> sympy_solve L eq v = Inr []
   \<Longrightarrow> simplify L eq = Inr r
   \<Longrightarrow> solve_equation L s v = Inr (if eq_zero L r then [S_Reals] else [])"
  by (simp add: solve_equation_def)

lemma solve_equation_roots:
  "parse_equation L s = Inr eq \<Longrightarrow> v \<in> free_symbols L eq \<Longrightarrow> sympy_solve L eq v = Inr sols
   \<Longrightarrow> sols \<noteq> [] \<Longrightarrow> solve_equation L s v = Inr (map Expr sols)"
  by (simp add: solve_equation_def)

subsection \<open>The formatter on each kind of list\<close>

lemma format_roots:
  assumes "sols \<noteq> []"
  shows "format_solutions L (map Expr sols) =
         Inr (join '' or '' (map (\<lambda>e. ''x = '' @ replace_I (str L e)) sols))"
proof -
  obtain e es where sols: "sols = e # es"
    using assms by (cases sols) auto
  have no_reals: "S_Reals \<notin> set (map Expr sols)"
    by auto
  show ?thesis
  proof (cases es)
    case Nil
    with sols show ?thesis
      by (simp add: format_solutions_def)
  next
    case (Cons e' es')
    with sols no_reals show ?thesis
      by (simp add: format_solutions_def Let_def comp_def)
  qed
qed

lemma trunc_rat_of_int: "trunc_rat (of_int n) = n"
  by (simp add: trunc_rat_def)

text \<open>A scalar whose float is exactly an integer is printed as that integer.\<close>

lemma format_eval_integer:
  "float_of L e = Inr (Finite (of_int n)) \<Longrightarrow> format_solutions L [EVAL, Expr e] = Inr (str_int n)"
  by (simp add: format_solutions_def format_eval_def try_integer_def trunc_rat_of_int)

text \<open>A scalar without a float value is printed by the library, \<open>I\<close> replaced.\<close>

lemma format_eval_symbolic:
  "float_of L e = Inl TypeError \<Longrightarrow> format_solutions L [EVAL, Expr e] = Inr (replace_I (str L e))"
  by (simp add: format_solutions_def format_eval_def try_integer_def)

text \<open>A scalar whose float is an infinity leaves the formatter with \<open>OverflowError\<close>.\<close>

lemma format_eval_infinite:
  "float_of L e = Inr PosInf \<or> float_of L e = Inr NegInf
   \<Longrightarrow> format_solutions L [EVAL, Expr e] = Inl OverflowError"
  by (auto simp add: format_solutions_def format_eval_def try_integer_def)

text \<open>
  An equation in \<open>y\<close> solved for \<open>x\<close> is evaluated, not solved: the difference
  of the sides is printed.
\<close>

lemma other_variable_is_evaluated:
  "solve_equation sympy_ref ''y + 1 = 2'' ''x'' = Inr [EVAL, Expr (Add [Integer (- 1), Symbol ''y''])] \<and>
   solve_text sympy_ref ''y + 1 = 2'' ''x'' = Inr ''y - 1''"
  by (simp add: model_defs ref_defs)

text \<open>The handler answers a syntax error of the parser and a refusal of the solver alike.\<close>

lemma handle_exn_syntax_error: "handle_exn SyntaxError = handle_exn NotImplementedError"
  by (simp add: handle_exn_def)

section \<open>The claims\<close>

subsection \<open>Contradictions and identities\<close>

text \<open>
  Claim C1, as amended. The module classifies by the free symbols of the parsed difference
  of the two sides, before anything is solved: when the target variable does not occur
  among them, the outcome is the scalar evaluation of the simplified difference, whatever
  its value. The empty list, which the formatter renders as \<open>No solution exists\<close>, is
  the outcome when the variable does occur, the solver returns no root and the simplified
  difference is not 0.
\<close>

theorem contradiction_needs_free_variable:
  assumes "parse_equation L s = Inr eq" and "simplify L eq = Inr r"
  shows "(v \<notin> free_symbols L eq \<longrightarrow> solve_equation L s v = Inr [EVAL, Expr r]) \<and>
         (v \<in> free_symbols L eq \<and> sympy_solve L eq v = Inr [] \<and> \<not> eq_zero L r \<longrightarrow>
            solve_equation L s v = Inr [] \<and> solve_text L s v = Inr ''No solution exists'')"
  using assms by (simp add: solve_equation_def solve_text_def format_solutions_def)

text \<open>
  Both cases on the library's answers: \<open>x - x = 5\<close> is parsed as the constant \<open>-5\<close>
  and evaluated; \<open>1/x = 0\<close> keeps its variable, has no root and is not 0.
\<close>

theorem contradiction_needs_free_variable_witness:
  "solve_equation sympy_ref ''x - x = 5'' ''x'' = Inr [EVAL, Expr (Integer (- 5))] \<and>
   solve_equation sympy_ref ''1/x = 0'' ''x'' = Inr [] \<and>
   solve_text sympy_ref ''1/x = 0'' ''x'' = Inr ''No solution exists''"
proof -
  let ?inv = "Pow (Symbol ''x'') (Integer (- 1))"
  have p1: "parse_equation sympy_ref ''x - x = 5'' = Inr (Integer (- 5))"
    by (simp add: model_defs ref_defs)
  have s1: "simplify sympy_ref (Integer (- 5)) = Inr (Integer (- 5))"
    by (simp add: ref_defs)
  have f1: "''x'' \<notin> free_symbols sympy_ref (Integer (- 5))"
    by (simp add: sympy_ref_def)
  have p2: "parse_equation sympy_ref ''1/x = 0'' = Inr ?inv"
    by (simp add: model_defs ref_defs)
  have s2: "simplify sympy_ref ?inv = Inr ?inv"
    by (simp add: ref_defs)
  have f2: "''x'' \<in> free_symbols sympy_ref ?inv \<and> sympy_solve sympy_ref ?inv ''x'' = Inr []
            \<and> \<not> eq_zero sympy_ref ?inv"
    by (simp add: ref_defs)
  show ?thesis
    using contradiction_needs_free_variable [OF p1 s1, of "''x''"]
      contradiction_needs_free_variable [OF p2 s2, of "''x''"] f1 f2
    by blast
qed

text \<open>
  Claim C1 as stated fails: \<open>x - x = 5\<close> is not classified as a contradiction but
  evaluated, and the text returned is \<open>-5\<close>.
\<close>

theorem x_minus_x_is_5_counterexample:
  "solve_text sympy_ref ''x - x = 5'' ''x'' = Inr ''-5'' \<and>
   solve_equation sympy_ref ''x - x = 5'' ''x'' \<noteq> Inr [] \<and>
   solve_text sympy_ref ''x - x = 5'' ''x'' \<noteq> Inr ''No solution exists''"
  by (simp add: model_defs ref_defs)

text \<open>
  Claim C2, as amended. The list \<open>[S.Reals]\<close>, which the formatter renders as
  \<open>x can be any real number\<close>, is the outcome when the target variable occurs among the
  free symbols of the parsed difference, the solver returns no root and the simplified
  difference equals 0. When the variable does not occur, the difference is evaluated as a
  scalar, also when it is 0.
\<close>

theorem identity_needs_free_variable:
  assumes "parse_equation L s = Inr eq" and "simplify L eq = Inr r"
  shows "(v \<notin> free_symbols L eq \<longrightarrow> solve_equation L s v = Inr [EVAL, Expr r]) \<and>
         (v \<in> free_symbols L eq \<and> sympy_solve L eq v = Inr [] \<and> eq_zero L r \<longrightarrow>
            solve_equation L s v = Inr [S_Reals] \<and>
            solve_text L s v = Inr ''x can be any real number'')"
  using assms by (simp add: solve_equation_def solve_text_def format_solutions_def)

text \<open>
  Both cases on the library's answers: \<open>x - x = 0\<close> is parsed as the constant \<open>0\<close>
  and evaluated; in \<open>(x + 1)^2 = x^2 + 2*x + 1\<close> the variable stays, the solver returns
  no root and the difference simplifies to 0.
\<close>

theorem identity_needs_free_variable_witness:
  "solve_equation sympy_ref ''x - x = 0'' ''x'' = Inr [EVAL, Expr (Integer 0)] \<and>
   solve_equation sympy_ref ''(x + 1)^2 = x^2 + 2*x + 1'' ''x'' = Inr [S_Reals] \<and>
   solve_text sympy_ref ''(x + 1)^2 = x^2 + 2*x + 1'' ''x'' = Inr ''x can be any real number''"
proof -
  have p1: "parse_equation sympy_ref ''x - x = 0'' = Inr (Integer 0)"
    by (simp add: model_defs ref_defs)
  have s1: "simplify sympy_ref (Integer 0) = Inr (Integer 0)"
    by (simp add: ref_defs)
  have f1: "''x'' \<notin> free_symbols sympy_ref (Integer 0)"
    by (simp add: sympy_ref_def)
  have p2: "parse_equation sympy_ref ''(x + 1)^2 = x^2 + 2*x + 1'' = Inr zero_difference"
    by (simp add: model_defs ref_defs)
  have s2: "simplify sympy_ref zero_difference = Inr (Integer 0)"
    by (simp add: sympy_ref_def ref_simplify_def)
  have f2: "''x'' \<in> free_symbols sympy_ref zero_difference \<and>
            sympy_solve sympy_ref zero_difference ''x'' = Inr [] \<and>
            eq_zero sympy_ref (Integer 0)"
    by (simp add: ref_defs)
  show ?thesis
    using identity_needs_free_variable [OF p1 s1, of "''x''"]
      identity_needs_free_variable [OF p2 s2, of "''x''"] f1 f2
    by blast
qed

text \<open>
  Claim C2 as stated fails: \<open>x - x = 0\<close> is evaluated, and the text returned is \<open>0\<close>.
\<close>

theorem x_minus_x_is_0_counterexample:
  "solve_text sympy_ref ''x - x = 0'' ''x'' = Inr ''0'' \<and>
   solve_equation sympy_ref ''x - x = 0'' ''x'' \<noteq> Inr [S_Reals] \<and>
   solve_text sympy_ref ''x - x = 0'' ''x'' \<noteq> Inr ''x can be any real number''"
  by (simp add: model_defs ref_defs)


subsection \<open>Order and wording of the roots\<close>

text \<open>
  Claim C3, as amended. The module does not reorder roots: when the solver returns a
  non-empty list, the text is the roots in the solver's own order, each as
  \<open>x = root\<close> with \<open>I\<close> written \<open>i\<close>, joined by \<open>or\<close>.
\<close>

theorem roots_in_solver_order:
  assumes "parse_equation L s = Inr eq" and "v \<in> free_symbols L eq"
    and "sympy_solve L eq v = Inr sols" and "sols \<noteq> []"
  shows "solve_text L s v = Inr (join '' or '' (map (\<lambda>e. ''x = '' @ replace_I (str L e)) sols))"
  using assms by (simp add: solve_text_def solve_equation_roots format_roots)

text \<open>
  On the library's answers, whose solver lists \<open>-2\<close> before \<open>2\<close> and \<open>-I\<close>
  before \<open>I\<close>: the two quadratics of the specification.
\<close>

theorem roots_in_solver_order_witness:
  "solve_text sympy_ref ''x^2 - 4 = 0'' ''x'' = Inr ''x = -2 or x = 2'' \<and>
   solve_text sympy_ref ''x^2 + 1 = 0'' ''x'' = Inr ''x = -i or x = i''"
proof -
  let ?a = "Add [Integer (- 4), x_sq]" and ?b = "Add [Integer 1, x_sq]"
  have pa: "parse_equation sympy_ref ''x^2 - 4 = 0'' = Inr ?a"
    by (simp add: model_defs ref_defs)
  have fa: "''x'' \<in> free_symbols sympy_ref ?a"
    by (simp add: ref_defs)
  have sa: "sympy_solve sympy_ref ?a ''x'' = Inr [Integer (- 2), Integer 2]"
    by (simp add: ref_defs)
  have pb: "parse_equation sympy_ref ''x^2 + 1 = 0'' = Inr ?b"
    by (simp add: model_defs ref_defs)
  have fb: "''x'' \<in> free_symbols sympy_ref ?b"
    by (simp add: ref_defs)
  have sb: "sympy_solve sympy_ref ?b ''x'' = Inr [minus_I, ImaginaryUnit]"
    by (simp add: ref_defs)
  have "solve_text sympy_ref ''x^2 - 4 = 0'' ''x'' = Inr ''x = -2 or x = 2''"
    using roots_in_solver_order [OF pa fa sa]
    by (simp add: sympy_ref_def replace_I_def str_int_def digit_char_def)
  moreover have "solve_text sympy_ref ''x^2 + 1 = 0'' ''x'' = Inr ''x = -i or x = i''"
    using roots_in_solver_order [OF pb fb sb]
    by (simp add: sympy_ref_def replace_I_def minus_I_def)
  ultimately show ?thesis
    by simp
qed

text \<open>
  Claim C3 as stated fails: neither quadratic is rendered with the larger real part, or the
  non-negative imaginary part, first.
\<close>

theorem larger_root_first_counterexample:
  "solve_text sympy_ref ''x^2 - 4 = 0'' ''x'' \<noteq> Inr ''x = 2 or x = -2'' \<and>
   solve_text sympy_ref ''x^2 + 1 = 0'' ''x'' \<noteq> Inr ''x = i or x = -i''"
  by (simp add: model_defs ref_defs)

text \<open>
  Claim C4, as amended. The formatter is not given the variable; its texts contain the
  letter \<open>x\<close> whatever variable was solved for: the identity is rendered as
  \<open>x can be any real number\<close> and every root as \<open>x = root\<close>.
\<close>

theorem output_names_x_for_any_variable:
  "(solve_equation L s v = Inr [S_Reals] \<longrightarrow>
      solve_text L s v = Inr ''x can be any real number'') \<and>
   (roots \<noteq> [] \<and> solve_equation L s v = Inr (map Expr roots) \<longrightarrow>
      solve_text L s v = Inr (join '' or '' (map (\<lambda>e. ''x = '' @ replace_I (str L e)) roots)))"
  by (simp add: solve_text_def format_roots) (simp add: format_solutions_def)

text \<open>Solving for \<open>y\<close>: the root of \<open>y + 1 = 2\<close> is named \<open>x\<close>; and an identity.\<close>

theorem output_names_x_for_any_variable_witness:
  "solve_text sympy_ref ''y + 1 = 2'' ''y'' = Inr ''x = 1'' \<and>
   solve_text sympy_ref ''(x + 1)^2 = x^2 + 2*x + 1'' ''x'' = Inr ''x can be any real number''"
proof -
  have r: "solve_equation sympy_ref ''y + 1 = 2'' ''y'' = Inr (map Expr [Integer 1])"
    by (simp add: model_defs ref_defs)
  have i: "solve_equation sympy_ref ''(x + 1)^2 = x^2 + 2*x + 1'' ''x'' = Inr [S_Reals]"
    by (simp add: model_defs ref_defs)
  have "solve_text sympy_ref ''y + 1 = 2'' ''y'' = Inr ''x = 1''"
    using output_names_x_for_any_variable
      [of sympy_ref "''y + 1 = 2''" "''y''" "[Integer 1]"] r
    by (simp add: sympy_ref_def replace_I_def str_int_def digit_char_def)
  moreover have "solve_text sympy_ref ''(x + 1)^2 = x^2 + 2*x + 1'' ''x''
                 = Inr ''x can be any real number''"
    using output_names_x_for_any_variable
      [of sympy_ref "''(x + 1)^2 = x^2 + 2*x + 1''" "''x''" "[]"] i
    by blast
  ultimately show ?thesis
    by simp
qed

text \<open>
  Claim C4 as stated fails: solved for \<open>y\<close>, the root of \<open>y + 1 = 2\<close> is not
  rendered as \<open>y = 1\<close>.
\<close>

theorem variable_name_counterexample:
  "solve_text sympy_ref ''y + 1 = 2'' ''y'' \<noteq> Inr ''y = 1''"
  by (simp add: model_defs ref_defs)

subsection \<open>Defects\<close>

text \<open>
  Claim C7. A second \<open>=\<close> stays in the right-hand side after the split, and the parser
  rejects that side with a \<open>SyntaxError\<close>, which is not among the exceptions that the
  handler answers with status 400. The request is answered with status 500 and the text
  of the failed-to-solve class, the same answer that a refusal of the solver gets.
\<close>

theorem second_equals_answered_as_unsolved:
  "solve sympy_ref (Some ''x = 1 = 2'') =
     Response 500 ''error'' ''Failed to solve equation. Please try a simpler form.'' \<and>
   parse_equation sympy_ref ''x = 1 = 2'' = Inl SyntaxError \<and>
   handle_exn SyntaxError = handle_exn NotImplementedError"
  by (simp add: model_defs ref_defs)

text \<open>
  Claim C8. The formatter decides integrality on the float of the value and prints the
  integer part of that float. An integer that no double represents is printed as the
  nearest double: \<open>18014398509481985\<close>, which is \<open>2^54 + 1\<close>, is printed as
  \<open>18014398509481984\<close>.
\<close>

theorem large_integer_printed_rounded:
  "solve_text sympy_ref ''18014398509481985'' ''x'' = Inr ''18014398509481984''"
  by (simp add: model_defs ref_defs)

text \<open>
  Claim C10. An input without the target variable takes the evaluation path, but the
  formatter does not always render the scalar: for a value whose float is an infinity
  the conversion to an integer raises \<open>OverflowError\<close>, which the formatter does not
  catch, and the request is answered with status 500.
\<close>

theorem infinite_scalar_raises:
  "solve_equation sympy_ref ''oo'' ''x'' = Inr [EVAL, Expr Infinity] \<and>
   solve_text sympy_ref ''oo'' ''x'' = Inl OverflowError \<and>
   solve sympy_ref (Some ''oo'') =
     Response 500 ''error'' ''Failed to solve equation. Please try a simpler form.''"
  by (simp add: model_defs ref_defs)


end
